theory Spec2Isabelle
  imports Main
begin

section \<open>LiveLogs: the live log viewer of Explore\<close>

text \<open>
  A shallow embedding of \<^verbatim>\<open>public/app/features/explore/LiveLogs.tsx\<close>.
  The React class component is a record of its props, its state and its instance fields;
  every method takes the component and returns it updated. Calls that leave the component
  (the \<^verbatim>\<open>onPause\<close> callback, \<^verbatim>\<open>scrollTo\<close> on the scroll container,
  \<^verbatim>\<open>scrollIntoView\<close> on the end marker) are returned as a list of effects, in the
  order the code performs them. JavaScript numbers are modelled as \<open>int\<close>: epoch
  milliseconds and pixel metrics; fractional values and NaN are outside the model.
\<close>

subsection \<open>Data\<close>

text \<open>
  \<^verbatim>\<open>LogRowModel\<close> and \<^verbatim>\<open>LogsModel\<close> come from \<^verbatim>\<open>@grafana/data\<close>;
  only the fields that the component reads are kept.
\<close>

record LogRowModel =
  timeEpochMs :: int
  timeLocal :: string
  timeUtc :: string
  timeFromNow :: string
  entry :: string

record LogsModel =
  rows :: "LogRowModel list"

text \<open>
  The props. The theme is styling only. The three callbacks \<^verbatim>\<open>stopLive\<close>,
  \<^verbatim>\<open>onPause\<close> and \<^verbatim>\<open>onResume\<close> are opaque to the component: calling
  one is an effect.
\<close>

record Props =
  logsResult :: "LogsModel option"
  timeZone :: string
  isPaused :: bool

record State =
  logsResultToRender :: "LogsModel option"
  lastTimestamp :: int

text \<open>The metrics of a scrollable element that the component reads.\<close>

record HTMLDivElement =
  scrollTop :: int
  clientHeight :: int
  scrollHeight :: int

text \<open>The empty div at the end of the list, kept in \<^verbatim>\<open>liveEndDiv\<close>.\<close>

datatype EndMarker = EndMarker

record LiveLogs =
  props :: Props
  state :: State
  liveEndDiv :: "EndMarker option"
  lastScrollPos :: "int option"

datatype effect =
    CallOnPause
  | CallOnResume
  | CallStopLive
  | ScrollTo int int
  | ScrollIntoView bool

datatype error = TypeError

subsection \<open>Library functions\<close>

text \<open>lodash \<^verbatim>\<open>last\<close>: the last element, \<^verbatim>\<open>undefined\<close> on an empty array.\<close>

definition last_lodash :: "'a list \<Rightarrow> 'a option" where
  "last_lodash xs = (if xs = [] then None else Some (last xs))"

text \<open>
  \<^verbatim>\<open>Array.prototype.slice(begin)\<close>: a negative \<^verbatim>\<open>begin\<close> counts from the
  end and stops at the first element, a positive one stops at the length.
\<close>

definition Array_slice :: "'a list \<Rightarrow> int \<Rightarrow> 'a list" where
  "Array_slice xs begin =
     (let len = int (length xs);
          k = (if begin < 0 then max (len + begin) 0 else min begin len)
      in drop (nat k) xs)"

subsection \<open>Construction and state derivation\<close>

definition constructor :: "Props \<Rightarrow> LiveLogs" where
  "constructor p =
     \<lparr>props = p,
      state = \<lparr>logsResultToRender = logsResult p, lastTimestamp = 0\<rparr>,
      liveEndDiv = None,
      lastScrollPos = None\<rparr>"

text \<open>
  \<^verbatim>\<open>getDerivedStateFromProps\<close> returns the new state, or \<^verbatim>\<open>null\<close> (here
  \<open>None\<close>) for no change. The object it returns has both keys of the state, so merging
  it into the state replaces the state.
\<close>

definition getDerivedStateFromProps :: "Props \<Rightarrow> State \<Rightarrow> State option" where
  "getDerivedStateFromProps nextProps st =
     (if \<not> isPaused nextProps then
        Some \<lparr>logsResultToRender = logsResult nextProps,
              lastTimestamp =
                (case logsResultToRender st of
                   None \<Rightarrow> 0
                 | Some m \<Rightarrow>
                     (case last_lodash (rows m) of
                        None \<Rightarrow> 0
                      | Some r \<Rightarrow> timeEpochMs r))\<rparr>
      else None)"

definition deriveState :: "Props \<Rightarrow> State \<Rightarrow> State" where
  "deriveState nextProps st =
     (case getDerivedStateFromProps nextProps st of None \<Rightarrow> st | Some st' \<Rightarrow> st')"

subsection \<open>Scrolling\<close>

text \<open>
  \<^verbatim>\<open>componentDidUpdate\<close>. The second argument is
  \<^verbatim>\<open>this.scrollContainerRef.current\<close>; reading the metrics of a null ref throws.
  \<^verbatim>\<open>if (this.lastScrollPos)\<close> tests truthiness: null and 0 both fail it and
  lead to the else branch.
\<close>

definition componentDidUpdate ::
  "Props \<Rightarrow> HTMLDivElement option \<Rightarrow> LiveLogs \<Rightarrow> error + (LiveLogs \<times> effect list)" where
  "componentDidUpdate prevProps current c =
     (if \<not> isPaused prevProps \<and> isPaused (props c) then
        (let toBottom = Inr (c, if liveEndDiv c \<noteq> None then [ScrollIntoView False] else [])
         in case lastScrollPos c of
              None \<Rightarrow> toBottom
            | Some d \<Rightarrow>
                if d \<noteq> 0 then
                  (case current of
                     None \<Rightarrow> Inl TypeError
                   | Some el \<Rightarrow>
                       Inr (c\<lparr>lastScrollPos := None\<rparr>,
                            [ScrollTo 0 (scrollHeight el - (d + clientHeight el))]))
                else toBottom)
      else Inr (c, []))"

definition onScroll :: "HTMLDivElement \<Rightarrow> LiveLogs \<Rightarrow> LiveLogs \<times> effect list" where
  "onScroll currentTarget c =
     (let distanceFromBottom =
            scrollHeight currentTarget - (scrollTop currentTarget + clientHeight currentTarget)
      in if distanceFromBottom \<ge> 5 \<and> \<not> isPaused (props c)
         then (c\<lparr>lastScrollPos := Some distanceFromBottom\<rparr>, [CallOnPause])
         else (c, []))"

text \<open>The ref callback of the end marker, called by React with the element or null.\<close>

definition liveEndRef :: "EndMarker option \<Rightarrow> LiveLogs \<Rightarrow> LiveLogs \<times> effect list" where
  "liveEndRef element c =
     (c\<lparr>liveEndDiv := element\<rparr>,
      if element \<noteq> None \<and> \<not> isPaused (props c) then [ScrollIntoView False] else [])"

subsection \<open>Rendering\<close>

definition rowsToRender :: "Props \<Rightarrow> State \<Rightarrow> LogRowModel list" where
  "rowsToRender p st =
     (let rowsToRender0 =
            (case logsResultToRender st of Some m \<Rightarrow> rows m | None \<Rightarrow> [])
      in if \<not> isPaused p then Array_slice rowsToRender0 (- 100) else rowsToRender0)"

definition isFresh :: "State \<Rightarrow> LogRowModel \<Rightarrow> bool" where
  "isFresh st row = (timeEpochMs row > lastTimestamp st)"

text \<open>
  What \<^verbatim>\<open>render\<close> returns, as far as the component decides it: the scroll
  handler of the container, one element per row, the pause button and the elapsed-time
  indicator with its \<^verbatim>\<open>resetKey\<close>.
\<close>

datatype RowStyle = LogsRowFresh | LogsRowOld

record TimeDiv =
  timeTitle :: string
  timeText :: string

record RowElement =
  rowKey :: "int \<times> nat"
  rowClassName :: RowStyle
  rowTimeDivs :: "TimeDiv list"
  rowMessage :: string

record Rendered =
  onScrollAttached :: bool
  rowElements :: "RowElement list"
  pauseButtonOnClick :: effect
  pauseButtonIcon :: string
  pauseButtonLabel :: string
  exitButtonOnClick :: effect
  lastLineReceived :: "LogsModel option option"

definition renderRow :: "Props \<Rightarrow> State \<Rightarrow> nat \<times> LogRowModel \<Rightarrow> RowElement" where
  "renderRow p st ir =
     (let index = fst ir; row = snd ir; showUtc = (timeZone p = ''utc'') in
      \<lparr>rowKey = (timeEpochMs row, index),
       rowClassName = (if isFresh st row then LogsRowFresh else LogsRowOld),
       rowTimeDivs =
         (if showUtc
          then [\<lparr>timeTitle = ''Local: '' @ timeLocal row @ '' ('' @ timeFromNow row @ '')'',
                 timeText = timeUtc row\<rparr>]
          else []) @
         (if \<not> showUtc
          then [\<lparr>timeTitle = timeUtc row @ '' ('' @ timeFromNow row @ '')'',
                 timeText = timeLocal row\<rparr>]
          else []),
       rowMessage = entry row\<rparr>)"

definition render :: "Props \<Rightarrow> State \<Rightarrow> Rendered" where
  "render p st =
     \<lparr>onScrollAttached = (\<not> isPaused p),
      rowElements = map (renderRow p st) (enumerate 0 (rowsToRender p st)),
      pauseButtonOnClick = (if isPaused p then CallOnResume else CallOnPause),
      pauseButtonIcon = (if isPaused p then ''fa-play'' else ''fa-pause''),
      pauseButtonLabel = (if isPaused p then ''Resume'' else ''Pause''),
      exitButtonOnClick = CallStopLive,
      lastLineReceived = (if isPaused p then None else Some (logsResult p))\<rparr>"

subsection \<open>The life cycle\<close>

text \<open>
  Mounting: the constructor, the state derivation, \<^verbatim>\<open>render\<close>, then React attaches
  the refs. The component has no \<^verbatim>\<open>componentDidMount\<close>.
\<close>

definition mount :: "Props \<Rightarrow> LiveLogs \<times> Rendered \<times> effect list" where
  "mount p =
     (let c0 = constructor p;
          c1 = c0\<lparr>state := deriveState p (state c0)\<rparr>;
          (c2, es) = liveEndRef (Some EndMarker) c1
      in (c2, render (props c2) (state c2), es))"

text \<open>
  An update that React commits: the state derivation with the next props, \<^verbatim>\<open>render\<close>,
  the refs (the ref callback is a new function on every render, so React calls the old
  one with null, where it only stores the null, and then the new one with the element;
  the scroll container is attached, its metrics at that moment are \<open>container\<close>),
  and last \<^verbatim>\<open>componentDidUpdate\<close> with the previous props. An update that
  \<^verbatim>\<open>PureComponent\<close> skips because neither props nor state changed renders
  nothing and has no effect; it is not an event of the model.
\<close>

definition update ::
  "Props \<Rightarrow> HTMLDivElement \<Rightarrow> LiveLogs \<Rightarrow> error + (LiveLogs \<times> Rendered \<times> effect list)" where
  "update nextProps container c =
     (let prevProps = props c;
          c1 = c\<lparr>props := nextProps, state := deriveState nextProps (state c)\<rparr>;
          (c2, es2) = liveEndRef None c1;
          (c3, es3) = liveEndRef (Some EndMarker) c2
      in case componentDidUpdate prevProps (Some container) c3 of
           Inl e \<Rightarrow> Inl e
         | Inr (c4, es4) \<Rightarrow> Inr (c4, render (props c4) (state c4), es2 @ es3 @ es4))"

text \<open>
  A scroll event on the container reaches \<^verbatim>\<open>onScroll\<close> only if the last render
  attached the handler.
\<close>

definition scrollEvent :: "HTMLDivElement \<Rightarrow> LiveLogs \<Rightarrow> LiveLogs \<times> effect list" where
  "scrollEvent currentTarget c =
     (if onScrollAttached (render (props c) (state c)) then onScroll currentTarget c
      else (c, []))"

datatype event = Update Props HTMLDivElement | Scroll HTMLDivElement

definition step :: "event \<Rightarrow> LiveLogs \<Rightarrow> error + (LiveLogs \<times> effect list)" where
  "step ev c =
     (case ev of
        Update nextProps container \<Rightarrow>
          (case update nextProps container c of
             Inl e \<Rightarrow> Inl e
           | Inr (c', v, es) \<Rightarrow> Inr (c', es))
      | Scroll currentTarget \<Rightarrow> Inr (scrollEvent currentTarget c))"

fun steps :: "event list \<Rightarrow> LiveLogs \<Rightarrow> error + LiveLogs" where
  "steps [] c = Inr c"
| "steps (ev # evs) c =
     (case step ev c of Inl e \<Rightarrow> Inl e | Inr (c', es) \<Rightarrow> steps evs c')"

text \<open>The component after mounting with \<open>p\<close> and then going through the events.\<close>

definition run :: "Props \<Rightarrow> event list \<Rightarrow> error + LiveLogs" where
  "run p evs = steps evs (fst (mount p))"

subsection \<open>Predicates used in the statements\<close>

text \<open>An event that leaves the pause flag set: an update with \<open>isPaused\<close>, or a scroll.\<close>

definition keepsPaused :: "event \<Rightarrow> bool" where
  "keepsPaused ev =
     (case ev of Update nextProps container \<Rightarrow> isPaused nextProps | Scroll t \<Rightarrow> True)"

text \<open>A log result that is absent or has no rows.\<close>

definition noRows :: "LogsModel option \<Rightarrow> bool" where
  "noRows r = (case r of None \<Rightarrow> True | Some m \<Rightarrow> rows m = [])"

text \<open>
  What holds of the instance fields after mounting and after every event: an offset is
  saved only while unpaused, a saved offset is at least 5, the end marker is attached.
\<close>

definition offsetInv :: "LiveLogs \<Rightarrow> bool" where
  "offsetInv c =
     ((isPaused (props c) \<longrightarrow> lastScrollPos c = None) \<and>
      (case lastScrollPos c of None \<Rightarrow> True | Some d \<Rightarrow> d \<ge> 5) \<and>
      liveEndDiv c = Some EndMarker)"

subsection \<open>Example inputs\<close>

definition exampleRow :: "int \<Rightarrow> LogRowModel" where
  "exampleRow t =
     \<lparr>timeEpochMs = t, timeLocal = ''12:00:00'', timeUtc = ''10:00:00'',
      timeFromNow = ''a few seconds ago'', entry = ''line''\<rparr>"

text \<open>A result of two rows that ends at time \<open>t\<close>.\<close>

definition exampleLogs :: "int \<Rightarrow> LogsModel" where
  "exampleLogs t = \<lparr>rows = [exampleRow (t - 50), exampleRow t]\<rparr>"

definition exampleProps :: "LogsModel option \<Rightarrow> string \<Rightarrow> bool \<Rightarrow> Props" where
  "exampleProps r tz paused = \<lparr>logsResult = r, timeZone = tz, isPaused = paused\<rparr>"

text \<open>A container 500 pixels high, scrolled to \<open>y\<close>, with content of height \<open>h\<close>.\<close>

definition exampleContainer :: "int \<Rightarrow> int \<Rightarrow> HTMLDivElement" where
  "exampleContainer y h = \<lparr>scrollTop = y, clientHeight = 500, scrollHeight = h\<rparr>"

definition exampleState :: "LogsModel option \<Rightarrow> int \<Rightarrow> State" where
  "exampleState r t = \<lparr>logsResultToRender = r, lastTimestamp = t\<rparr>"

text \<open>The component mounted live on a result that ends at 100.\<close>

definition exampleMounted :: "LiveLogs" where
  "exampleMounted = fst (mount (exampleProps (Some (exampleLogs 100)) ''utc'' False))"

lemmas example_defs =
  exampleRow_def exampleLogs_def exampleProps_def exampleContainer_def exampleState_def

section \<open>Properties\<close>

subsection \<open>The slice and the state derivation\<close>

lemma Array_slice_neg: "0 < n \<Longrightarrow> Array_slice xs (- int n) = drop (length xs - n) xs"
  by (auto simp: Array_slice_def Let_def max_def intro!: arg_cong2[where f=drop])

lemma Array_slice_100: "Array_slice xs (- 100) = drop (length xs - 100) xs"
  using Array_slice_neg[of 100 xs] by simp

lemma deriveState_paused: "isPaused nextProps \<Longrightarrow> deriveState nextProps st = st"
  by (simp add: deriveState_def getDerivedStateFromProps_def)

lemma deriveState_unpaused:
  "\<not> isPaused nextProps \<Longrightarrow>
   deriveState nextProps st =
     \<lparr>logsResultToRender = logsResult nextProps,
      lastTimestamp =
        (case logsResultToRender st of
           None \<Rightarrow> 0
         | Some m \<Rightarrow> if rows m = [] then 0 else timeEpochMs (last (rows m)))\<rparr>"
  by (simp add: deriveState_def getDerivedStateFromProps_def last_lodash_def split: option.splits)

subsection \<open>Rendering\<close>

lemma rowsToRender_paused:
  "isPaused p \<Longrightarrow>
   rowsToRender p st = (case logsResultToRender st of None \<Rightarrow> [] | Some m \<Rightarrow> rows m)"
  by (simp add: rowsToRender_def split: option.splits)

lemma rowsToRender_unpaused:
  "\<not> isPaused p \<Longrightarrow>
   rowsToRender p st =
     (let total = (case logsResultToRender st of None \<Rightarrow> [] | Some m \<Rightarrow> rows m)
      in drop (length total - 100) total)"
  by (simp add: rowsToRender_def Let_def Array_slice_100 split: option.splits)

lemma length_rowElements: "length (rowElements (render p st)) = length (rowsToRender p st)"
  by (simp add: render_def)

lemma nth_rowElements:
  "i < length (rowsToRender p st) \<Longrightarrow>
   rowElements (render p st) ! i = renderRow p st (i, rowsToRender p st ! i)"
  by (simp add: render_def nth_enumerate_eq)

subsection \<open>Mounting and updating\<close>

lemma mount_eq:
  "mount p =
     (\<lparr>props = p, state = deriveState p \<lparr>logsResultToRender = logsResult p, lastTimestamp = 0\<rparr>,
       liveEndDiv = Some EndMarker, lastScrollPos = None\<rparr>,
      render p (deriveState p \<lparr>logsResultToRender = logsResult p, lastTimestamp = 0\<rparr>),
      if \<not> isPaused p then [ScrollIntoView False] else [])"
  by (simp add: mount_def constructor_def liveEndRef_def Let_def)

lemma state_mount:
  "state (fst (mount p)) = deriveState p \<lparr>logsResultToRender = logsResult p, lastTimestamp = 0\<rparr>"
  by (simp add: mount_eq)

lemma update_unfold:
  "update nextProps container c =
     (case componentDidUpdate (props c) (Some container)
             (c\<lparr>props := nextProps, state := deriveState nextProps (state c),
                liveEndDiv := Some EndMarker\<rparr>) of
        Inl e \<Rightarrow> Inl e
      | Inr (c4, es4) \<Rightarrow>
          Inr (c4, render (props c4) (state c4),
               (if \<not> isPaused nextProps then [ScrollIntoView False] else []) @ es4))"
  by (simp add: update_def liveEndRef_def Let_def split: sum.splits prod.splits)

text \<open>An update never throws: the scroll container is attached when its metrics are read.\<close>

lemma update_total: "\<exists>c' v es. update nextProps container c = Inr (c', v, es)"
  by (simp add: update_unfold componentDidUpdate_def Let_def split: option.splits)

lemma update_props: "update nextProps container c = Inr (c', v, es) \<Longrightarrow> props c' = nextProps"
  by (auto simp: update_unfold componentDidUpdate_def Let_def split: option.splits if_splits)

lemma update_state:
  "update nextProps container c = Inr (c', v, es) \<Longrightarrow> state c' = deriveState nextProps (state c)"
  by (auto simp: update_unfold componentDidUpdate_def Let_def split: option.splits if_splits)

lemma update_view:
  "update nextProps container c = Inr (c', v, es) \<Longrightarrow> v = render (props c') (state c')"
  by (auto simp: update_unfold componentDidUpdate_def Let_def split: option.splits if_splits)

lemma update_unpaused:
  "\<not> isPaused nextProps \<Longrightarrow>
   update nextProps container c =
     Inr (c\<lparr>props := nextProps, state := deriveState nextProps (state c),
            liveEndDiv := Some EndMarker\<rparr>,
          render nextProps (deriveState nextProps (state c)), [ScrollIntoView False])"
  by (simp add: update_unfold componentDidUpdate_def)

lemma update_still_paused:
  "isPaused nextProps \<Longrightarrow> isPaused (props c) \<Longrightarrow>
   update nextProps container c =
     Inr (c\<lparr>props := nextProps, state := state c, liveEndDiv := Some EndMarker\<rparr>,
          render nextProps (state c), [])"
  by (simp add: update_unfold componentDidUpdate_def deriveState_paused)

lemma update_pause_saved:
  "isPaused nextProps \<Longrightarrow> \<not> isPaused (props c) \<Longrightarrow> lastScrollPos c = Some d \<Longrightarrow> d \<noteq> 0 \<Longrightarrow>
   update nextProps container c =
     Inr (c\<lparr>props := nextProps, state := state c, liveEndDiv := Some EndMarker,
            lastScrollPos := None\<rparr>,
          render nextProps (state c),
          [ScrollTo 0 (scrollHeight container - (d + clientHeight container))])"
  by (simp add: update_unfold componentDidUpdate_def deriveState_paused)

lemma update_pause_unsaved:
  "isPaused nextProps \<Longrightarrow> \<not> isPaused (props c) \<Longrightarrow> lastScrollPos c = None \<Longrightarrow>
   update nextProps container c =
     Inr (c\<lparr>props := nextProps, state := state c, liveEndDiv := Some EndMarker\<rparr>,
          render nextProps (state c), [ScrollIntoView False])"
  by (simp add: update_unfold componentDidUpdate_def deriveState_paused)

lemma scrollEvent_state: "state (fst (scrollEvent t c)) = state c"
  by (simp add: scrollEvent_def onScroll_def Let_def)

subsection \<open>The invariant of the saved offset\<close>

lemma mount_offsetInv: "offsetInv (fst (mount p))"
  by (simp add: mount_eq offsetInv_def)

lemma update_offsetInv:
  assumes "offsetInv c" and "update nextProps container c = Inr (c', v, es)"
  shows "offsetInv c'"
  using assms
  by (auto simp: update_unfold componentDidUpdate_def offsetInv_def Let_def
           split: option.splits if_splits)

lemma scrollEvent_offsetInv: "offsetInv c \<Longrightarrow> offsetInv (fst (scrollEvent t c))"
  by (auto simp: scrollEvent_def onScroll_def offsetInv_def Let_def render_def split: option.splits)

lemma step_total: "\<exists>c' es. step ev c = Inr (c', es)"
proof (cases ev)
  case (Update p el)
  then show ?thesis using update_total[of p el c] by (auto simp: step_def)
next
  case (Scroll t)
  then show ?thesis by (cases "scrollEvent t c") (simp add: step_def)
qed

lemma step_offsetInv: "offsetInv c \<Longrightarrow> step ev c = Inr (c', es) \<Longrightarrow> offsetInv c'"
proof (cases ev)
  case (Update p el)
  assume "offsetInv c" "step ev c = Inr (c', es)"
  with Update show ?thesis
    by (auto simp: step_def split: sum.splits dest: update_offsetInv)
next
  case (Scroll t)
  assume "offsetInv c" "step ev c = Inr (c', es)"
  with Scroll show ?thesis
    using scrollEvent_offsetInv[of c t] by (simp add: step_def)
qed

lemma steps_total: "\<exists>c'. steps evs c = Inr c'"
proof (induction evs arbitrary: c)
  case Nil
  then show ?case by simp
next
  case (Cons ev evs)
  obtain c1 es where s: "step ev c = Inr (c1, es)" using step_total by blast
  then show ?case using Cons.IH[of c1] by simp
qed

lemma steps_offsetInv: "offsetInv c \<Longrightarrow> steps evs c = Inr c' \<Longrightarrow> offsetInv c'"
proof (induction evs arbitrary: c)
  case Nil
  then show ?case by simp
next
  case (Cons ev evs)
  obtain c1 es where s: "step ev c = Inr (c1, es)" using step_total by blast
  with Cons.prems have "offsetInv c1" "steps evs c1 = Inr c'"
    by (auto dest: step_offsetInv)
  then show ?case by (rule Cons.IH)
qed

lemma run_offsetInv: "run p evs = Inr c \<Longrightarrow> offsetInv c"
  unfolding run_def using mount_offsetInv steps_offsetInv by blast

subsection \<open>Events that keep the view paused\<close>

lemma step_keepsPaused_state:
  assumes "keepsPaused ev" and "step ev c = Inr (c', es)"
  shows "state c' = state c"
proof (cases ev)
  case (Update p el)
  with assms have "isPaused p" and u: "\<exists>v. update p el c = Inr (c', v, es)"
    by (auto simp: keepsPaused_def step_def split: sum.splits)
  then show ?thesis
    using update_state deriveState_paused by fastforce
next
  case (Scroll t)
  with assms show ?thesis
    using scrollEvent_state[of t c] by (auto simp: step_def)
qed

lemma steps_keepsPaused_state:
  "\<forall>ev \<in> set evs. keepsPaused ev \<Longrightarrow> steps evs c = Inr c' \<Longrightarrow> state c' = state c"
proof (induction evs arbitrary: c)
  case Nil
  then show ?case by simp
next
  case (Cons ev evs)
  obtain c1 es where s: "step ev c = Inr (c1, es)" using step_total by blast
  from Cons.prems s have "state c1 = state c"
    by (auto dest: step_keepsPaused_state)
  moreover from Cons.prems s have "state c' = state c1"
    by (auto intro: Cons.IH)
  ultimately show ?case by simp
qed

subsection \<open>The example runs\<close>

lemma exampleMounted_eq:
  "exampleMounted =
     \<lparr>props = exampleProps (Some (exampleLogs 100)) ''utc'' False,
      state = \<lparr>logsResultToRender = Some (exampleLogs 100), lastTimestamp = 100\<rparr>,
      liveEndDiv = Some EndMarker, lastScrollPos = None\<rparr>"
  by (simp add: exampleMounted_def mount_eq deriveState_unpaused example_defs)

lemma run_mounted:
  "run (exampleProps (Some (exampleLogs 100)) ''utc'' False) [] = Inr exampleMounted"
  by (simp add: run_def exampleMounted_def)

lemma step_scrolled_up:
  "step (Scroll (exampleContainer 450 1000)) exampleMounted
     = Inr (exampleMounted\<lparr>lastScrollPos := Some 50\<rparr>, [CallOnPause])"
  by (simp add: step_def scrollEvent_def onScroll_def render_def)
     (simp add: exampleMounted_eq exampleProps_def exampleContainer_def)

lemma run_scrolled_up:
  "run (exampleProps (Some (exampleLogs 100)) ''utc'' False) [Scroll (exampleContainer 450 1000)]
     = Inr (exampleMounted\<lparr>lastScrollPos := Some 50\<rparr>)"
  by (simp add: run_def exampleMounted_def [symmetric] step_scrolled_up)

lemma run_scroll_paused:
  "run (exampleProps (Some (exampleLogs 100)) ''utc'' False)
     [Scroll (exampleContainer 450 1000),
      Update (exampleProps (Some (exampleLogs 200)) ''utc'' True) (exampleContainer 450 1200)]
     = Inr (exampleMounted\<lparr>props := exampleProps (Some (exampleLogs 200)) ''utc'' True\<rparr>)"
proof -
  have u: "update (exampleProps (Some (exampleLogs 200)) ''utc'' True) (exampleContainer 450 1200)
             (exampleMounted\<lparr>lastScrollPos := Some 50\<rparr>)
           = Inr (exampleMounted\<lparr>props := exampleProps (Some (exampleLogs 200)) ''utc'' True\<rparr>,
                  render (exampleProps (Some (exampleLogs 200)) ''utc'' True) (state exampleMounted),
                  [ScrollTo 0 650])"
    by (simp add: update_pause_saved [where d = 50] exampleMounted_eq exampleProps_def
          exampleContainer_def)
  have s2: "step (Update (exampleProps (Some (exampleLogs 200)) ''utc'' True) (exampleContainer 450 1200))
              (exampleMounted\<lparr>lastScrollPos := Some 50\<rparr>)
            = Inr (exampleMounted\<lparr>props := exampleProps (Some (exampleLogs 200)) ''utc'' True\<rparr>,
                   [ScrollTo 0 650])"
    by (simp add: step_def u)
  show ?thesis
    by (simp add: run_def exampleMounted_def [symmetric] step_scrolled_up s2)
qed

subsection \<open>When no row is rendered\<close>

lemma rowElements_Nil_iff: "rowElements (render p st) = [] \<longleftrightarrow> rowsToRender p st = []"
  by (simp add: render_def enumerate_eq_zip)

lemma length_le_minus_100_iff: "length xs \<le> length xs - 100 \<longleftrightarrow> xs = []"
  by (cases xs) auto

lemma rowsToRender_Nil_iff: "rowsToRender p st = [] \<longleftrightarrow> noRows (logsResultToRender st)"
  by (cases "isPaused p")
     (simp_all add: rowsToRender_paused rowsToRender_unpaused noRows_def Let_def
        length_le_minus_100_iff split: option.splits)

lemma rowElements_paused:
  "isPaused p \<Longrightarrow>
   rowElements (render p st) =
     map (renderRow p st)
       (enumerate 0 (case logsResultToRender st of None \<Rightarrow> [] | Some m \<Rightarrow> rows m))"
  by (simp add: render_def rowsToRender_paused)

lemma logsResultToRender_mount: "logsResultToRender (state (fst (mount p))) = logsResult p"
  by (cases "isPaused p") (simp_all add: state_mount deriveState_paused deriveState_unpaused)

lemma view_mount: "fst (snd (mount p)) = render p (state (fst (mount p)))"
  by (simp add: mount_eq)

section \<open>The claims\<close>

subsection \<open>C1: the view is frozen while paused\<close>

text \<open>
  C1. While the pause flag is set, \<open>getDerivedStateFromProps\<close> returns no change, and
  after any sequence of updates that all carry \<open>isPaused = true\<close> (scroll events may
  come in between) the snapshot \<open>logsResultToRender\<close> and the threshold
  \<open>lastTimestamp\<close> are what they were before; so the rows of any two paused renders
  in that span are the same.
\<close>

theorem paused_updates_freeze_view:
  assumes "\<forall>ev \<in> set evs. keepsPaused ev"
  shows "(\<forall>nextProps st. isPaused nextProps \<longrightarrow> getDerivedStateFromProps nextProps st = None) \<and>
         (\<exists>c'. steps evs c = Inr c' \<and>
               logsResultToRender (state c') = logsResultToRender (state c) \<and>
               lastTimestamp (state c') = lastTimestamp (state c) \<and>
               (\<forall>p1 p2. isPaused p1 \<and> isPaused p2 \<longrightarrow>
                  rowsToRender p1 (state c') = rowsToRender p2 (state c)))"
proof -
  obtain c' where r: "steps evs c = Inr c'" using steps_total by blast
  with assms have "state c' = state c" by (rule steps_keepsPaused_state)
  with r show ?thesis
    by (simp add: getDerivedStateFromProps_def rowsToRender_paused)
qed

text \<open>
  Mounted live on a result ending at 100, then two paused updates with newer results and
  a scroll event: the snapshot still ends at 100.
\<close>

theorem paused_updates_freeze_view_witness:
  "keepsPaused (Update (exampleProps (Some (exampleLogs 200)) ''utc'' True) (exampleContainer 500 1000)) \<and>
   keepsPaused (Scroll (exampleContainer 0 1000)) \<and>
   keepsPaused (Update (exampleProps (Some (exampleLogs 300)) ''utc'' True) (exampleContainer 0 1200)) \<and>
   (\<exists>c'. steps [Update (exampleProps (Some (exampleLogs 200)) ''utc'' True) (exampleContainer 500 1000),
                Scroll (exampleContainer 0 1000),
                Update (exampleProps (Some (exampleLogs 300)) ''utc'' True) (exampleContainer 0 1200)]
            exampleMounted = Inr c' \<and>
         logsResultToRender (state c') = Some (exampleLogs 100) \<and>
         lastTimestamp (state c') = 100)"
proof -
  have h: "\<forall>ev \<in> set [Update (exampleProps (Some (exampleLogs 200)) ''utc'' True) (exampleContainer 500 1000),
                  Scroll (exampleContainer 0 1000),
                  Update (exampleProps (Some (exampleLogs 300)) ''utc'' True) (exampleContainer 0 1200)].
      keepsPaused ev"
    by (simp add: keepsPaused_def exampleProps_def)
  have s: "state exampleMounted =
           \<lparr>logsResultToRender = Some (exampleLogs 100), lastTimestamp = 100\<rparr>"
    by (simp add: exampleMounted_eq)
  from paused_updates_freeze_view [OF h, of exampleMounted]
  have "\<exists>c'. steps [Update (exampleProps (Some (exampleLogs 200)) ''utc'' True) (exampleContainer 500 1000),
                Scroll (exampleContainer 0 1000),
                Update (exampleProps (Some (exampleLogs 300)) ''utc'' True) (exampleContainer 0 1200)]
            exampleMounted = Inr c' \<and>
         logsResultToRender (state c') = logsResultToRender (state exampleMounted) \<and>
         lastTimestamp (state c') = lastTimestamp (state exampleMounted)"
    by blast
  with h show ?thesis by (simp add: s)
qed

subsection \<open>C2: the threshold comes from the previous snapshot\<close>

text \<open>
  C2. An unpaused update takes the new result as the snapshot and sets the threshold to
  the \<open>timeEpochMs\<close> of the last row of the snapshot held before the update, or to 0
  when that snapshot is absent or has no rows. So over three unpaused updates with
  results \<open>m1\<close>, \<open>m2\<close> and a third, the threshold after the second is the last time
  of \<open>m1\<close> and after the third the last time of \<open>m2\<close>.
\<close>

theorem threshold_is_previous_last_row:
  "(\<not> isPaused nextProps \<longrightarrow>
      (\<exists>c' v es. update nextProps container c = Inr (c', v, es) \<and>
         getDerivedStateFromProps nextProps (state c) = Some (state c') \<and>
         logsResultToRender (state c') = logsResult nextProps \<and>
         lastTimestamp (state c') =
           (case logsResultToRender (state c) of
              None \<Rightarrow> 0
            | Some m \<Rightarrow> if rows m = [] then 0 else timeEpochMs (last (rows m))))) \<and>
   (\<not> isPaused p1 \<and> \<not> isPaused p2 \<and> \<not> isPaused p3 \<and>
    logsResult p1 = Some m1 \<and> rows m1 \<noteq> [] \<and> logsResult p2 = Some m2 \<and> rows m2 \<noteq> [] \<longrightarrow>
      (\<exists>c1 v1 es1 c2 v2 es2 c3 v3 es3.
         update p1 e1 c = Inr (c1, v1, es1) \<and>
         update p2 e2 c1 = Inr (c2, v2, es2) \<and>
         update p3 e3 c2 = Inr (c3, v3, es3) \<and>
         lastTimestamp (state c2) = timeEpochMs (last (rows m1)) \<and>
         lastTimestamp (state c3) = timeEpochMs (last (rows m2))))"
proof -
  have one: "\<not> isPaused nextProps \<longrightarrow>
      (\<exists>c' v es. update nextProps container c = Inr (c', v, es) \<and>
         getDerivedStateFromProps nextProps (state c) = Some (state c') \<and>
         logsResultToRender (state c') = logsResult nextProps \<and>
         lastTimestamp (state c') =
           (case logsResultToRender (state c) of
              None \<Rightarrow> 0
            | Some m \<Rightarrow> if rows m = [] then 0 else timeEpochMs (last (rows m))))"
    by (simp add: update_unpaused deriveState_unpaused)
       (simp add: getDerivedStateFromProps_def last_lodash_def split: option.splits)
  have three: "\<not> isPaused p1 \<and> \<not> isPaused p2 \<and> \<not> isPaused p3 \<and>
    logsResult p1 = Some m1 \<and> rows m1 \<noteq> [] \<and> logsResult p2 = Some m2 \<and> rows m2 \<noteq> [] \<longrightarrow>
      (\<exists>c1 v1 es1 c2 v2 es2 c3 v3 es3.
         update p1 e1 c = Inr (c1, v1, es1) \<and>
         update p2 e2 c1 = Inr (c2, v2, es2) \<and>
         update p3 e3 c2 = Inr (c3, v3, es3) \<and>
         lastTimestamp (state c2) = timeEpochMs (last (rows m1)) \<and>
         lastTimestamp (state c3) = timeEpochMs (last (rows m2)))"
    by (simp add: update_unpaused deriveState_unpaused)
  from one three show ?thesis by blast
qed

text \<open>Results ending at 100, 200 and 300: the threshold is 100, then 200.\<close>

theorem threshold_is_previous_last_row_witness:
  "\<not> isPaused (exampleProps (Some (exampleLogs 200)) ''utc'' False) \<and>
   (\<exists>c1 v1 es1 c2 v2 es2 c3 v3 es3.
      update (exampleProps (Some (exampleLogs 100)) ''utc'' False) (exampleContainer 500 1000)
        (fst (mount (exampleProps None ''utc'' False))) = Inr (c1, v1, es1) \<and>
      update (exampleProps (Some (exampleLogs 200)) ''utc'' False) (exampleContainer 500 1000) c1
        = Inr (c2, v2, es2) \<and>
      update (exampleProps (Some (exampleLogs 300)) ''utc'' False) (exampleContainer 500 1000) c2
        = Inr (c3, v3, es3) \<and>
      lastTimestamp (state c2) = 100 \<and> lastTimestamp (state c3) = 200)"
  using threshold_is_previous_last_row
    [where c = "fst (mount (exampleProps None ''utc'' False))"
       and ?p1.0 = "exampleProps (Some (exampleLogs 100)) ''utc'' False"
       and ?p2.0 = "exampleProps (Some (exampleLogs 200)) ''utc'' False"
       and ?p3.0 = "exampleProps (Some (exampleLogs 300)) ''utc'' False"
       and ?m1.0 = "exampleLogs 100" and ?m2.0 = "exampleLogs 200"
       and ?e1.0 = "exampleContainer 500 1000" and ?e2.0 = "exampleContainer 500 1000"
       and ?e3.0 = "exampleContainer 500 1000"
       and nextProps = "exampleProps (Some (exampleLogs 200)) ''utc'' False"
       and container = "exampleContainer 500 1000"]
  by (simp add: exampleProps_def exampleLogs_def exampleRow_def)

subsection \<open>C3: at most 100 rows while live, all rows while paused\<close>

text \<open>
  C3. With \<open>total\<close> the rows of the snapshot (none when it is absent): an unpaused
  render shows the last \<open>min 100 (length total)\<close> rows in their order, a paused render
  shows all of \<open>total\<close>; \<open>render\<close> produces one element per such row.
\<close>

theorem rowsToRender_bounded_while_live:
  "(let total = (case logsResultToRender st of None \<Rightarrow> [] | Some m \<Rightarrow> rows m) in
     (\<not> isPaused p \<longrightarrow>
        rowsToRender p st = drop (length total - min 100 (length total)) total \<and>
        length (rowsToRender p st) = min 100 (length total)) \<and>
     (isPaused p \<longrightarrow>
        rowsToRender p st = total \<and> length (rowsToRender p st) = length total)) \<and>
   length (rowElements (render p st)) = length (rowsToRender p st)"
  by (auto simp: Let_def rowsToRender_paused rowsToRender_unpaused length_rowElements min_def)

text \<open>A snapshot of 101 rows: live, the oldest row is cut; paused, all 101 are shown.\<close>

theorem rowsToRender_bounded_while_live_witness:
  "length (rowsToRender (exampleProps None ''utc'' False)
             (exampleState (Some \<lparr>rows = map (\<lambda>n. exampleRow (int n)) [0..<101]\<rparr>) 0)) = 100 \<and>
   rowsToRender (exampleProps None ''utc'' False)
             (exampleState (Some \<lparr>rows = map (\<lambda>n. exampleRow (int n)) [0..<101]\<rparr>) 0)
     = map (\<lambda>n. exampleRow (int n)) [1..<101] \<and>
   length (rowsToRender (exampleProps None ''utc'' True)
             (exampleState (Some \<lparr>rows = map (\<lambda>n. exampleRow (int n)) [0..<101]\<rparr>) 0)) = 101 \<and>
   length (rowElements (render (exampleProps None ''utc'' True)
             (exampleState (Some \<lparr>rows = map (\<lambda>n. exampleRow (int n)) [0..<101]\<rparr>) 0))) = 101"
  using rowsToRender_bounded_while_live
          [of "exampleState (Some \<lparr>rows = map (\<lambda>n. exampleRow (int n)) [0..<101]\<rparr>) 0"
              "exampleProps None ''utc'' False"]
        rowsToRender_bounded_while_live
          [of "exampleState (Some \<lparr>rows = map (\<lambda>n. exampleRow (int n)) [0..<101]\<rparr>) 0"
              "exampleProps None ''utc'' True"]
  by (simp add: exampleProps_def exampleState_def drop_map Let_def)

subsection \<open>C4: entering the paused state\<close>

text \<open>
  C4. On the update where \<open>isPaused\<close> goes from false to true, in any state the
  component can reach: if an offset \<open>d\<close> is saved, the container is sent
  \<open>scrollTo(0, scrollHeight - (d + clientHeight))\<close> with its metrics at that moment and the
  offset is cleared; if none is saved, the end marker is scrolled into view, once: the
  paused updates that follow scroll nothing.
\<close>

theorem pause_transition_restores_offset:
  assumes "run p0 evs = Inr c" and "\<not> isPaused (props c)" and "isPaused nextProps"
  shows "\<exists>c' v. lastScrollPos c' = None \<and>
           (case lastScrollPos c of
              Some d \<Rightarrow>
                update nextProps container c =
                  Inr (c', v, [ScrollTo 0 (scrollHeight container - (d + clientHeight container))])
            | None \<Rightarrow> update nextProps container c = Inr (c', v, [ScrollIntoView False])) \<and>
           (\<forall>p2 el2. isPaused p2 \<longrightarrow> (\<exists>c'' v2. update p2 el2 c' = Inr (c'', v2, [])))"
proof (cases "lastScrollPos c")
  case None
  with assms show ?thesis
    by (simp add: update_pause_unsaved update_still_paused)
next
  case (Some d)
  from assms(1) have "offsetInv c" by (rule run_offsetInv)
  with Some have "d \<noteq> 0" by (simp add: offsetInv_def)
  with Some assms show ?thesis
    by (simp add: update_pause_saved update_still_paused)
qed

text \<open>
  A container 500 high with content 1000 high, scrolled to 450: the offset 50 is saved.
  The content grows to 1200 and the view pauses: the container is scrolled to 650.
  Without a scroll event before, the end marker is scrolled into view.
\<close>

theorem pause_transition_restores_offset_witness:
  "run (exampleProps (Some (exampleLogs 100)) ''utc'' False) [Scroll (exampleContainer 450 1000)]
     = Inr (exampleMounted\<lparr>lastScrollPos := Some 50\<rparr>) \<and>
   \<not> isPaused (props (exampleMounted\<lparr>lastScrollPos := Some 50\<rparr>)) \<and>
   isPaused (exampleProps (Some (exampleLogs 200)) ''utc'' True) \<and>
   (\<exists>c' v. lastScrollPos c' = None \<and>
      update (exampleProps (Some (exampleLogs 200)) ''utc'' True) (exampleContainer 450 1200)
        (exampleMounted\<lparr>lastScrollPos := Some 50\<rparr>) = Inr (c', v, [ScrollTo 0 650])) \<and>
   (\<exists>c' v. lastScrollPos c' = None \<and>
      update (exampleProps (Some (exampleLogs 200)) ''utc'' True) (exampleContainer 500 1200)
        exampleMounted = Inr (c', v, [ScrollIntoView False]))"
proof -
  have u: "\<not> isPaused (props (exampleMounted\<lparr>lastScrollPos := Some 50\<rparr>))"
          "\<not> isPaused (props exampleMounted)"
    by (simp_all add: exampleMounted_eq exampleProps_def)
  have p: "isPaused (exampleProps (Some (exampleLogs 200)) ''utc'' True)"
    by (simp add: exampleProps_def)
  have "\<exists>c' v. lastScrollPos c' = None \<and>
      update (exampleProps (Some (exampleLogs 200)) ''utc'' True) (exampleContainer 450 1200)
        (exampleMounted\<lparr>lastScrollPos := Some 50\<rparr>) = Inr (c', v, [ScrollTo 0 650])"
    using pause_transition_restores_offset
            [OF run_scrolled_up u(1) p, of "exampleContainer 450 1200"]
    by (simp add: exampleContainer_def) blast
  moreover have "\<exists>c' v. lastScrollPos c' = None \<and>
      update (exampleProps (Some (exampleLogs 200)) ''utc'' True) (exampleContainer 500 1200)
        exampleMounted = Inr (c', v, [ScrollIntoView False])"
    using pause_transition_restores_offset
            [OF run_mounted u(2) p, of "exampleContainer 500 1200"]
    by (simp add: exampleMounted_eq) blast
  ultimately show ?thesis using u p run_scrolled_up by simp
qed

subsection \<open>C5: scrolling away from the bottom pauses\<close>

text \<open>
  C5. A scroll event while unpaused, at distance \<open>scrollHeight - (scrollTop + clientHeight)\<close>
  from the bottom: from 5 on, \<open>onPause\<close> is called and the distance is saved; below 5,
  nothing is called and nothing is saved. While paused the handler is not attached and a
  scroll event changes nothing.
\<close>

theorem scroll_pauses_from_5px:
  "(let distanceFromBottom = scrollHeight t - (scrollTop t + clientHeight t) in
     (\<not> isPaused (props c) \<and> distanceFromBottom \<ge> 5 \<longrightarrow>
        onScroll t c = (c\<lparr>lastScrollPos := Some distanceFromBottom\<rparr>, [CallOnPause]) \<and>
        scrollEvent t c = onScroll t c) \<and>
     (\<not> isPaused (props c) \<and> distanceFromBottom < 5 \<longrightarrow>
        onScroll t c = (c, []) \<and> scrollEvent t c = (c, []))) \<and>
   (isPaused (props c) \<longrightarrow>
      \<not> onScrollAttached (render (props c) (state c)) \<and> scrollEvent t c = (c, []))"
  by (simp add: Let_def onScroll_def scrollEvent_def render_def)

text \<open>The boundary: 5 pixels pause, 4 pixels do not; paused, 500 pixels do not.\<close>

theorem scroll_pauses_from_5px_witness:
  "\<not> isPaused (props (fst (mount (exampleProps None ''utc'' False)))) \<and>
   scrollEvent (exampleContainer 495 1000) (fst (mount (exampleProps None ''utc'' False))) =
     ((fst (mount (exampleProps None ''utc'' False)))\<lparr>lastScrollPos := Some 5\<rparr>, [CallOnPause]) \<and>
   scrollEvent (exampleContainer 496 1000) (fst (mount (exampleProps None ''utc'' False))) =
     (fst (mount (exampleProps None ''utc'' False)), []) \<and>
   isPaused (props (fst (mount (exampleProps None ''utc'' True)))) \<and>
   scrollEvent (exampleContainer 0 1000) (fst (mount (exampleProps None ''utc'' True))) =
     (fst (mount (exampleProps None ''utc'' True)), [])"
  using scroll_pauses_from_5px
          [of "exampleContainer 495 1000" "fst (mount (exampleProps None ''utc'' False))"]
        scroll_pauses_from_5px
          [of "exampleContainer 496 1000" "fst (mount (exampleProps None ''utc'' False))"]
        scroll_pauses_from_5px
          [of "exampleContainer 0 1000" "fst (mount (exampleProps None ''utc'' True))"]
  by (simp add: mount_eq exampleProps_def exampleContainer_def Let_def)

subsection \<open>C6: fresh rows\<close>

text \<open>
  C6. A row is fresh exactly when its \<open>timeEpochMs\<close> is strictly greater than the
  threshold \<open>lastTimestamp\<close>; two rows with the same time under two states with the same
  threshold are classified alike, whatever else differs; and the class of every rendered
  row is decided by this comparison.
\<close>

theorem isFresh_iff_newer_than_threshold:
  "(isFresh st row \<longleftrightarrow> timeEpochMs row > lastTimestamp st) \<and>
   (timeEpochMs row = timeEpochMs row' \<and> lastTimestamp st = lastTimestamp st' \<longrightarrow>
      isFresh st row = isFresh st' row') \<and>
   (\<forall>i < length (rowsToRender p st).
      rowClassName (rowElements (render p st) ! i) =
        (if timeEpochMs (rowsToRender p st ! i) > lastTimestamp st
         then LogsRowFresh else LogsRowOld))"
  by (simp add: isFresh_def nth_rowElements renderRow_def Let_def)

text \<open>Threshold 150, rows at 150 and 200: the first is old, the second fresh.\<close>

theorem isFresh_iff_newer_than_threshold_witness:
  "isFresh (exampleState (Some (exampleLogs 200)) 150) (exampleRow 200) \<and>
   \<not> isFresh (exampleState (Some (exampleLogs 200)) 150) (exampleRow 150) \<and>
   (0::nat) < length (rowsToRender (exampleProps None ''utc'' True)
                        (exampleState (Some (exampleLogs 200)) 150)) \<and>
   rowClassName (rowElements (render (exampleProps None ''utc'' True)
                   (exampleState (Some (exampleLogs 200)) 150)) ! 0) = LogsRowOld \<and>
   rowClassName (rowElements (render (exampleProps None ''utc'' True)
                   (exampleState (Some (exampleLogs 200)) 150)) ! 1) = LogsRowFresh"
proof -
  note a = isFresh_iff_newer_than_threshold
             [of "exampleState (Some (exampleLogs 200)) 150" "exampleRow 200" "exampleRow 200"
                 "exampleState (Some (exampleLogs 200)) 150" "exampleProps None ''utc'' True"]
  note b = isFresh_iff_newer_than_threshold
             [of "exampleState (Some (exampleLogs 200)) 150" "exampleRow 150" "exampleRow 150"
                 "exampleState (Some (exampleLogs 200)) 150" "exampleProps None ''utc'' True"]
  have r: "rowsToRender (exampleProps None ''utc'' True) (exampleState (Some (exampleLogs 200)) 150)
           = [exampleRow 150, exampleRow 200]"
    by (simp add: rowsToRender_paused example_defs)
  from a have "\<forall>i < length (rowsToRender (exampleProps None ''utc'' True)
                            (exampleState (Some (exampleLogs 200)) 150)).
      rowClassName (rowElements (render (exampleProps None ''utc'' True)
                      (exampleState (Some (exampleLogs 200)) 150)) ! i) =
        (if timeEpochMs (rowsToRender (exampleProps None ''utc'' True)
                           (exampleState (Some (exampleLogs 200)) 150) ! i)
              > lastTimestamp (exampleState (Some (exampleLogs 200)) 150)
         then LogsRowFresh else LogsRowOld)"
    by blast
  then have "rowClassName (rowElements (render (exampleProps None ''utc'' True)
                   (exampleState (Some (exampleLogs 200)) 150)) ! 0) = LogsRowOld"
       and "rowClassName (rowElements (render (exampleProps None ''utc'' True)
                   (exampleState (Some (exampleLogs 200)) 150)) ! 1) = LogsRowFresh"
    by (simp_all add: r) (simp_all add: exampleRow_def exampleState_def)
  moreover from a b have "isFresh (exampleState (Some (exampleLogs 200)) 150) (exampleRow 200)"
      and "\<not> isFresh (exampleState (Some (exampleLogs 200)) 150) (exampleRow 150)"
    by (simp_all add: exampleRow_def exampleState_def)
  ultimately show ?thesis by (simp add: r)
qed

subsection \<open>C7: resuming\<close>

text \<open>
  C7. In any state the component can reach while paused, whatever was scrolled and saved
  before the pause: the update that clears \<open>isPaused\<close> scrolls the end marker into
  view, leaves no saved offset, and renders the container with the scroll handler; so
  does the unpaused update that follows it.
\<close>

theorem resume_scrolls_to_end:
  assumes "run p0 evs = Inr c" and "isPaused (props c)" and "\<not> isPaused nextProps"
  shows "\<exists>c' v. update nextProps container c = Inr (c', v, [ScrollIntoView False]) \<and>
           lastScrollPos c' = None \<and> onScrollAttached v \<and>
           (\<forall>p2 el2. \<not> isPaused p2 \<longrightarrow>
              (\<exists>c'' v2. update p2 el2 c' = Inr (c'', v2, [ScrollIntoView False]) \<and>
                 lastScrollPos c'' = None \<and> onScrollAttached v2))"
proof -
  from assms(1) have "offsetInv c" by (rule run_offsetInv)
  with assms(2) have "lastScrollPos c = None" by (simp add: offsetInv_def)
  with assms(3) show ?thesis
    by (simp add: update_unpaused render_def)
qed

text \<open>
  Scrolled up by 50, paused (which restores the position), then resumed: the end marker is
  scrolled into view, no offset is left and the handler is back.
\<close>

theorem resume_scrolls_to_end_witness:
  "run (exampleProps (Some (exampleLogs 100)) ''utc'' False)
     [Scroll (exampleContainer 450 1000),
      Update (exampleProps (Some (exampleLogs 200)) ''utc'' True) (exampleContainer 450 1200)]
     = Inr (exampleMounted\<lparr>props := exampleProps (Some (exampleLogs 200)) ''utc'' True\<rparr>) \<and>
   isPaused (props (exampleMounted\<lparr>props := exampleProps (Some (exampleLogs 200)) ''utc'' True\<rparr>)) \<and>
   \<not> isPaused (exampleProps (Some (exampleLogs 300)) ''utc'' False) \<and>
   (\<exists>c' v. update (exampleProps (Some (exampleLogs 300)) ''utc'' False) (exampleContainer 650 1200)
             (exampleMounted\<lparr>props := exampleProps (Some (exampleLogs 200)) ''utc'' True\<rparr>)
           = Inr (c', v, [ScrollIntoView False]) \<and>
          lastScrollPos c' = None \<and> onScrollAttached v)"
proof -
  have a: "isPaused (props (exampleMounted\<lparr>props := exampleProps (Some (exampleLogs 200)) ''utc'' True\<rparr>))"
    by (simp add: exampleProps_def)
  have b: "\<not> isPaused (exampleProps (Some (exampleLogs 300)) ''utc'' False)"
    by (simp add: exampleProps_def)
  have "\<exists>c' v. update (exampleProps (Some (exampleLogs 300)) ''utc'' False) (exampleContainer 650 1200)
             (exampleMounted\<lparr>props := exampleProps (Some (exampleLogs 200)) ''utc'' True\<rparr>)
           = Inr (c', v, [ScrollIntoView False]) \<and>
          lastScrollPos c' = None \<and> onScrollAttached v"
    using resume_scrolls_to_end [OF run_scroll_paused a b, of "exampleContainer 650 1200"]
    by blast
  with a b run_scroll_paused show ?thesis by simp
qed

subsection \<open>C8: an absent or empty result\<close>

text \<open>
  C8, as stated, fails while paused: the component was mounted live on a result of two
  rows; an update then brings \<open>isPaused = true\<close> and no \<open>logsResult\<close>. The update does
  not throw, and the two rows of the frozen snapshot are rendered, not zero rows.
\<close>

theorem absent_result_while_paused_counterexample:
  "logsResult (exampleProps None ''utc'' True) = None \<and>
   \<not> isl (update (exampleProps None ''utc'' True) (exampleContainer 500 1000)
            (fst (mount (exampleProps (Some (exampleLogs 100)) ''utc'' False)))) \<and>
   length (rowElements (fst (snd (projr
     (update (exampleProps None ''utc'' True) (exampleContainer 500 1000)
        (fst (mount (exampleProps (Some (exampleLogs 100)) ''utc'' False)))))))) = 2"
  by (simp add: example_defs mount_eq update_pause_unsaved deriveState_unpaused
        length_rowElements rowsToRender_paused)

text \<open>
  C8, amended. The first render shows no row exactly when \<open>logsResult\<close> is absent or
  has no rows (paused or not), and so does every unpaused update. A paused update keeps
  the state and shows every row of the frozen snapshot, whatever \<open>logsResult\<close> is:
  no row exactly when that snapshot is absent or has no rows. No update throws. An
  unpaused derivation from an absent or empty previous snapshot sets the threshold to 0.
\<close>

theorem absent_snapshot_renders_nothing:
  "(rowElements (fst (snd (mount p))) = [] \<longleftrightarrow> noRows (logsResult p)) \<and>
   (\<not> isPaused p \<longrightarrow>
      (\<exists>c' v es. update p container c = Inr (c', v, es) \<and>
         (rowElements v = [] \<longleftrightarrow> noRows (logsResult p)))) \<and>
   (isPaused p \<longrightarrow>
      (\<exists>c' v es. update p container c = Inr (c', v, es) \<and>
         state c' = state c \<and>
         rowElements v =
           map (renderRow p (state c))
             (enumerate 0 (case logsResultToRender (state c) of None \<Rightarrow> [] | Some m \<Rightarrow> rows m)) \<and>
         (rowElements v = [] \<longleftrightarrow> noRows (logsResultToRender (state c))))) \<and>
   (\<exists>c' v es. update p container c = Inr (c', v, es)) \<and>
   (\<forall>st. \<not> isPaused p \<and> noRows (logsResultToRender st) \<longrightarrow>
      getDerivedStateFromProps p st =
        Some \<lparr>logsResultToRender = logsResult p, lastTimestamp = 0\<rparr>)"
proof -
  have first: "rowElements (fst (snd (mount p))) = [] \<longleftrightarrow> noRows (logsResult p)"
    by (simp add: view_mount rowElements_Nil_iff rowsToRender_Nil_iff logsResultToRender_mount)
  have live: "\<not> isPaused p \<longrightarrow>
      (\<exists>c' v es. update p container c = Inr (c', v, es) \<and>
         (rowElements v = [] \<longleftrightarrow> noRows (logsResult p)))"
    by (simp add: update_unpaused rowElements_Nil_iff rowsToRender_Nil_iff deriveState_unpaused)
  have frozen: "isPaused p \<longrightarrow>
      (\<exists>c' v es. update p container c = Inr (c', v, es) \<and>
         state c' = state c \<and>
         rowElements v =
           map (renderRow p (state c))
             (enumerate 0 (case logsResultToRender (state c) of None \<Rightarrow> [] | Some m \<Rightarrow> rows m)) \<and>
         (rowElements v = [] \<longleftrightarrow> noRows (logsResultToRender (state c))))"
  proof
    assume a: "isPaused p"
    obtain c' v es where u: "update p container c = Inr (c', v, es)"
      using update_total by blast
    with a have s: "state c' = state c" and "props c' = p" and "v = render (props c') (state c')"
      by (auto dest: update_state update_props update_view simp: deriveState_paused)
    then have v: "v = render p (state c)" by simp
    from a have "rowElements (render p (state c)) =
        map (renderRow p (state c))
          (enumerate 0 (case logsResultToRender (state c) of None \<Rightarrow> [] | Some m \<Rightarrow> rows m))"
      by (rule rowElements_paused)
    moreover have "rowElements (render p (state c)) = [] \<longleftrightarrow> noRows (logsResultToRender (state c))"
      by (simp add: rowElements_Nil_iff rowsToRender_Nil_iff)
    ultimately show "\<exists>c' v es. update p container c = Inr (c', v, es) \<and>
         state c' = state c \<and>
         rowElements v =
           map (renderRow p (state c))
             (enumerate 0 (case logsResultToRender (state c) of None \<Rightarrow> [] | Some m \<Rightarrow> rows m)) \<and>
         (rowElements v = [] \<longleftrightarrow> noRows (logsResultToRender (state c)))"
      using u s v by blast
  qed
  have total: "\<exists>c' v es. update p container c = Inr (c', v, es)"
    using update_total by blast
  have zero: "\<forall>st. \<not> isPaused p \<and> noRows (logsResultToRender st) \<longrightarrow>
      getDerivedStateFromProps p st =
        Some \<lparr>logsResultToRender = logsResult p, lastTimestamp = 0\<rparr>"
    by (auto simp: getDerivedStateFromProps_def noRows_def last_lodash_def split: option.splits)
  from first live frozen total zero show ?thesis by blast
qed

text \<open>
  No result at the first render, paused or live, and no result in a live update of a
  component that was showing two rows: no row is rendered. The same update paused: the
  two frozen rows are rendered. A paused update with a result on a component mounted
  without one: no row. A snapshot without rows, threshold 70, then a live update: the
  threshold is 0.
\<close>

theorem absent_snapshot_renders_nothing_witness:
  "noRows (logsResult (exampleProps None ''utc'' False)) \<and>
   noRows (logsResult (exampleProps None ''utc'' True)) \<and>
   rowElements (fst (snd (mount (exampleProps None ''utc'' False)))) = [] \<and>
   rowElements (fst (snd (mount (exampleProps None ''utc'' True)))) = [] \<and>
   (\<exists>c' v es. update (exampleProps None ''utc'' False) (exampleContainer 500 1000) exampleMounted
                 = Inr (c', v, es) \<and> rowElements v = []) \<and>
   (\<exists>c' v es. update (exampleProps None ''utc'' True) (exampleContainer 500 1000) exampleMounted
                 = Inr (c', v, es) \<and> state c' = state exampleMounted \<and>
               map rowKey (rowElements v) = [(50, 0), (100, 1)] \<and>
               map rowMessage (rowElements v) = [''line'', ''line'']) \<and>
   (\<exists>c' v es. update (exampleProps (Some (exampleLogs 100)) ''utc'' True) (exampleContainer 500 1000)
                 (fst (mount (exampleProps None ''utc'' True)))
                 = Inr (c', v, es) \<and> rowElements v = []) \<and>
   getDerivedStateFromProps (exampleProps (Some (exampleLogs 100)) ''utc'' False)
       (exampleState (Some \<lparr>rows = []\<rparr>) 70)
     = Some (exampleState (Some (exampleLogs 100)) 0)"
proof -
  have n: "noRows (logsResult (exampleProps None ''utc'' False))"
          "noRows (logsResult (exampleProps None ''utc'' True))"
    by (simp_all add: noRows_def exampleProps_def)
  have pl: "\<not> isPaused (exampleProps None ''utc'' False)"
           "\<not> isPaused (exampleProps (Some (exampleLogs 100)) ''utc'' False)"
    and pp: "isPaused (exampleProps None ''utc'' True)"
            "isPaused (exampleProps (Some (exampleLogs 100)) ''utc'' True)"
    by (simp_all add: exampleProps_def)
  note live = absent_snapshot_renders_nothing
                [of "exampleProps None ''utc'' False" "exampleContainer 500 1000" exampleMounted]
  note paused = absent_snapshot_renders_nothing
                [of "exampleProps None ''utc'' True" "exampleContainer 500 1000" exampleMounted]
  note empty = absent_snapshot_renders_nothing
                [of "exampleProps (Some (exampleLogs 100)) ''utc'' True" "exampleContainer 500 1000"
                    "fst (mount (exampleProps None ''utc'' True))"]
  note derive = absent_snapshot_renders_nothing
                [of "exampleProps (Some (exampleLogs 100)) ''utc'' False" "exampleContainer 500 1000"
                    exampleMounted]
  from live n(1) have m1: "rowElements (fst (snd (mount (exampleProps None ''utc'' False)))) = []"
    by blast
  from paused n(2) have m2: "rowElements (fst (snd (mount (exampleProps None ''utc'' True)))) = []"
    by blast
  from live n(1) pl(1)
  have u1: "\<exists>c' v es. update (exampleProps None ''utc'' False) (exampleContainer 500 1000) exampleMounted
                 = Inr (c', v, es) \<and> rowElements v = []"
    by blast
  from paused pp(1)
  have "\<exists>c' v es. update (exampleProps None ''utc'' True) (exampleContainer 500 1000) exampleMounted
                 = Inr (c', v, es) \<and> state c' = state exampleMounted \<and>
          rowElements v =
            map (renderRow (exampleProps None ''utc'' True) (state exampleMounted))
              (enumerate 0 (case logsResultToRender (state exampleMounted) of
                              None \<Rightarrow> [] | Some m \<Rightarrow> rows m))"
    by blast
  then have u2: "\<exists>c' v es. update (exampleProps None ''utc'' True) (exampleContainer 500 1000) exampleMounted
                 = Inr (c', v, es) \<and> state c' = state exampleMounted \<and>
               map rowKey (rowElements v) = [(50, 0), (100, 1)] \<and>
               map rowMessage (rowElements v) = [''line'', ''line'']"
    by (auto simp: exampleMounted_eq exampleLogs_def exampleRow_def renderRow_def Let_def)
  have e: "noRows (logsResultToRender (state (fst (mount (exampleProps None ''utc'' True)))))"
    by (simp add: state_mount deriveState_paused noRows_def exampleProps_def)
  from empty pp(2) e
  have u3: "\<exists>c' v es. update (exampleProps (Some (exampleLogs 100)) ''utc'' True) (exampleContainer 500 1000)
                 (fst (mount (exampleProps None ''utc'' True)))
                 = Inr (c', v, es) \<and> rowElements v = []"
    by blast
  have "noRows (logsResultToRender (exampleState (Some \<lparr>rows = []\<rparr>) 70))"
    by (simp add: noRows_def exampleState_def)
  with derive pl(2)
  have "getDerivedStateFromProps (exampleProps (Some (exampleLogs 100)) ''utc'' False)
          (exampleState (Some \<lparr>rows = []\<rparr>) 70)
        = Some \<lparr>logsResultToRender = logsResult (exampleProps (Some (exampleLogs 100)) ''utc'' False),
                lastTimestamp = 0\<rparr>"
    by blast
  then have d: "getDerivedStateFromProps (exampleProps (Some (exampleLogs 100)) ''utc'' False)
       (exampleState (Some \<lparr>rows = []\<rparr>) 70)
     = Some (exampleState (Some (exampleLogs 100)) 0)"
    by (simp add: exampleProps_def exampleState_def)
  from n m1 m2 u1 u2 u3 d show ?thesis by blast
qed

subsection \<open>C9: the timestamp of a row\<close>

text \<open>
  C9. For every rendered row there is exactly one timestamp element. With
  \<open>timeZone = 'utc'\<close> its text is the UTC time of the row and its title is
  \<open>Local: \<close>, the local time and the relative time in parentheses; with any other
  \<open>timeZone\<close> its text is the local time and its title is the UTC time and the relative
  time in parentheses.
\<close>

theorem timestamp_text_by_timeZone:
  assumes "i < length (rowsToRender p st)"
  shows "(let row = rowsToRender p st ! i; el = rowElements (render p st) ! i in
           (timeZone p = ''utc'' \<longrightarrow>
              rowTimeDivs el =
                [\<lparr>timeTitle = ''Local: '' @ timeLocal row @ '' ('' @ timeFromNow row @ '')'',
                  timeText = timeUtc row\<rparr>]) \<and>
           (timeZone p \<noteq> ''utc'' \<longrightarrow>
              rowTimeDivs el =
                [\<lparr>timeTitle = timeUtc row @ '' ('' @ timeFromNow row @ '')'',
                  timeText = timeLocal row\<rparr>]))"
  using assms by (simp add: nth_rowElements renderRow_def Let_def)

text \<open>The first row of the example under \<open>utc\<close> and under \<open>browser\<close>.\<close>

theorem timestamp_text_by_timeZone_witness:
  "(0::nat) < length (rowsToRender (exampleProps None ''utc'' True)
                        (exampleState (Some (exampleLogs 200)) 150)) \<and>
   rowTimeDivs (rowElements (render (exampleProps None ''utc'' True)
                  (exampleState (Some (exampleLogs 200)) 150)) ! 0) =
     [\<lparr>timeTitle = ''Local: 12:00:00 (a few seconds ago)'', timeText = ''10:00:00''\<rparr>] \<and>
   rowTimeDivs (rowElements (render (exampleProps None ''browser'' True)
                  (exampleState (Some (exampleLogs 200)) 150)) ! 0) =
     [\<lparr>timeTitle = ''10:00:00 (a few seconds ago)'', timeText = ''12:00:00''\<rparr>]"
proof -
  have r: "rowsToRender (exampleProps None tz True) (exampleState (Some (exampleLogs 200)) 150)
           = [exampleRow 150, exampleRow 200]" for tz
    by (simp add: rowsToRender_paused example_defs)
  have l: "0 < length (rowsToRender (exampleProps None tz True)
                         (exampleState (Some (exampleLogs 200)) 150))" for tz
    by (simp add: r)
  show ?thesis
    using l timestamp_text_by_timeZone [OF l [of "''utc''"]]
          timestamp_text_by_timeZone [OF l [of "''browser''"]]
    by (simp add: r Let_def) (simp add: exampleRow_def exampleProps_def)
qed

subsection \<open>C10: the elapsed-time indicator\<close>

text \<open>
  C10. The indicator \<open>Last line received\<close> is rendered exactly when \<open>isPaused\<close> is
  false, then with the current \<open>logsResult\<close> as its reset key; while paused it is not
  rendered, whatever results have been received.
\<close>

theorem lastLineReceived_iff_unpaused:
  "(lastLineReceived (render p st) \<noteq> None \<longleftrightarrow> \<not> isPaused p) \<and>
   (isPaused p \<longrightarrow> lastLineReceived (render p st) = None) \<and>
   (\<not> isPaused p \<longrightarrow> lastLineReceived (render p st) = Some (logsResult p))"
  by (simp add: render_def)

text \<open>The same result and state, paused and live.\<close>

theorem lastLineReceived_iff_unpaused_witness:
  "isPaused (exampleProps (Some (exampleLogs 100)) ''utc'' True) \<and>
   lastLineReceived (render (exampleProps (Some (exampleLogs 100)) ''utc'' True)
                       (exampleState (Some (exampleLogs 100)) 0)) = None \<and>
   \<not> isPaused (exampleProps (Some (exampleLogs 100)) ''utc'' False) \<and>
   lastLineReceived (render (exampleProps (Some (exampleLogs 100)) ''utc'' False)
                       (exampleState (Some (exampleLogs 100)) 0)) = Some (Some (exampleLogs 100))"
  using lastLineReceived_iff_unpaused
          [of "exampleProps (Some (exampleLogs 100)) ''utc'' True"
              "exampleState (Some (exampleLogs 100)) 0"]
        lastLineReceived_iff_unpaused
          [of "exampleProps (Some (exampleLogs 100)) ''utc'' False"
              "exampleState (Some (exampleLogs 100)) 0"]
  by (simp add: exampleProps_def)

end
